theory Spec2Isabelle
  imports Main
begin

section \<open>JavaScript values and built-ins used by the code\<close>

text \<open>
  The webhook controller and the Gemini wrapper handle parsed JSON whose shape is not
  checked at run time, so the values they inspect are modelled as a datatype of
  JavaScript values. Strings are byte strings; the string built-ins below are exact on
  ASCII text and leave every other byte alone. Numbers are the integer-valued numbers of
  magnitude below \<open>10^21\<close>: for these \<open>Number::toString\<close> is the plain decimal numeral.
  Fractions and larger magnitudes are outside the model.
\<close>

datatype jsval =
    JUndefined
  | JNull
  | JBool bool
  | JNum int
  | JStr string
  | JArr "jsval list"
  | JObj "(string \<times> jsval) list"

text \<open>Errors raised inside the modelled code, each a value.\<close>

datatype error =
    TypeError
  | ValidationError
  | RecordNotFound
  | ForeignKeyViolation

text \<open>\<open>ToBoolean\<close>: what \<open>x || y\<close>, \<open>!x\<close> and \<open>c ? a : b\<close> test.\<close>

fun truthy :: "jsval \<Rightarrow> bool" where
  "truthy JUndefined = False"
| "truthy JNull = False"
| "truthy (JBool b) = b"
| "truthy (JNum n) = (n \<noteq> 0)"
| "truthy (JStr s) = (s \<noteq> [])"
| "truthy (JArr xs) = True"
| "truthy (JObj kvs) = True"

text \<open>
  Property read \<open>v.k\<close> for the property names the code uses (none of them is a
  property of a string, number, boolean or array): an object yields the last entry
  parsed for the key, everything else yields \<open>undefined\<close>. Reading a property of
  \<open>null\<close> or \<open>undefined\<close> throws; \<open>nullish\<close> is the test for that.
\<close>

definition nullish :: "jsval \<Rightarrow> bool" where
  "nullish v = (v = JNull \<or> v = JUndefined)"

definition propOf :: "jsval \<Rightarrow> string \<Rightarrow> jsval" where
  "propOf v k =
     (case v of
        JObj kvs \<Rightarrow> (case map_of (rev kvs) k of None \<Rightarrow> JUndefined | Some x \<Rightarrow> x)
      | _ \<Rightarrow> JUndefined)"

text \<open>\<open>String.prototype.toLowerCase\<close> on ASCII letters.\<close>

definition lowerChar :: "char \<Rightarrow> char" where
  "lowerChar c =
     (case map_of (zip ''ABCDEFGHIJKLMNOPQRSTUVWXYZ'' ''abcdefghijklmnopqrstuvwxyz'') c of
        None \<Rightarrow> c
      | Some l \<Rightarrow> l)"

definition toLowerCase :: "string \<Rightarrow> string" where
  "toLowerCase s = map lowerChar s"

text \<open>Decimal numerals, as \<open>Number::toString\<close> prints an integer.\<close>

definition digitChar :: "nat \<Rightarrow> char" where
  "digitChar d = ''0123456789'' ! d"

fun showNat :: "nat \<Rightarrow> string" where
  "showNat n = (if n < 10 then [digitChar n] else showNat (n div 10) @ [digitChar (n mod 10)])"

declare showNat.simps [simp del]

definition showInt :: "int \<Rightarrow> string" where
  "showInt i = (if i < 0 then CHR ''-'' # showNat (nat (- i)) else showNat (nat i))"

fun joinWith :: "string \<Rightarrow> string list \<Rightarrow> string" where
  "joinWith sep [] = []"
| "joinWith sep [x] = x"
| "joinWith sep (x # y # ys) = x @ sep @ joinWith sep (y # ys)"

text \<open>
  \<open>ToString\<close>, as \<open>String(v)\<close>, a template literal and \<open>parseInt\<close> apply it. An
  array prints its elements separated by commas, with \<open>null\<close> and \<open>undefined\<close>
  elements printed as nothing; a plain object prints as \<open>[object Object]\<close>.
\<close>

fun js_toString :: "jsval \<Rightarrow> string" where
  "js_toString JUndefined = ''undefined''"
| "js_toString JNull = ''null''"
| "js_toString (JBool b) = (if b then ''true'' else ''false'')"
| "js_toString (JNum n) = showInt n"
| "js_toString (JStr s) = s"
| "js_toString (JArr xs) =
     joinWith '','' (map (\<lambda>v. if v = JUndefined \<or> v = JNull then [] else js_toString v) xs)"
| "js_toString (JObj kvs) = ''[object Object]''"

text \<open>
  \<open>parseInt(v)\<close> with no radix: \<open>ToString\<close>, skip leading white space, read an
  optional sign, switch to radix 16 after a \<open>0x\<close> or \<open>0X\<close> prefix, and read the longest
  run of digits. \<open>None\<close> is \<open>NaN\<close>.
\<close>

definition isWhiteSpace :: "char \<Rightarrow> bool" where
  "isWhiteSpace c =
     (c \<in> set [CHR '' '', CHR 0x09, CHR 0x0A, CHR 0x0B, CHR 0x0C, CHR 0x0D])"

definition digitValue :: "char \<Rightarrow> nat option" where
  "digitValue c =
     map_of (zip ''0123456789'' [0, 1, 2, 3, 4, 5, 6, 7, 8, 9] @
             zip ''abcdef'' [10, 11, 12, 13, 14, 15] @
             zip ''ABCDEF'' [10, 11, 12, 13, 14, 15]) c"

fun readDigits :: "nat \<Rightarrow> nat option \<Rightarrow> string \<Rightarrow> nat option" where
  "readDigits radix acc [] = acc"
| "readDigits radix acc (c # cs) =
     (case digitValue c of
        None \<Rightarrow> acc
      | Some d \<Rightarrow>
          if d < radix
          then readDigits radix (Some ((case acc of None \<Rightarrow> 0 | Some a \<Rightarrow> a) * radix + d)) cs
          else acc)"

definition readUnsigned :: "string \<Rightarrow> nat option" where
  "readUnsigned s =
     (case s of
        c # x # rest \<Rightarrow>
          if c = CHR ''0'' \<and> (x = CHR ''x'' \<or> x = CHR ''X'')
          then readDigits 16 None rest
          else readDigits 10 None s
      | _ \<Rightarrow> readDigits 10 None s)"

definition parseIntStr :: "string \<Rightarrow> int option" where
  "parseIntStr s =
     (case dropWhile isWhiteSpace s of
        [] \<Rightarrow> None
      | c # cs \<Rightarrow>
          if c = CHR ''-'' then map_option (\<lambda>n. - int n) (readUnsigned cs)
          else if c = CHR ''+'' then map_option int (readUnsigned cs)
          else map_option int (readUnsigned (c # cs)))"

definition parseInt :: "jsval \<Rightarrow> int option" where
  "parseInt v = parseIntStr (js_toString v)"

section \<open>Text analysis: \<open>apps/api/src/lib/gemini.ts\<close>\<close>

record TextAnalysis =
  ta_sentiment :: string
  ta_score :: int
  ta_intent :: jsval
  ta_tags :: "string list"

text \<open>
  \<open>toSentimentUpper(s)\<close> lower-cases \<open>s\<close>, or the empty string when \<open>s\<close> is falsy. The
  caller passes a property of parsed JSON, so the argument is any value: a truthy value
  that is not a string has no \<open>toLowerCase\<close> and the call throws.
\<close>

definition toSentimentUpper :: "jsval \<Rightarrow> error + string" where
  "toSentimentUpper s =
     (case (if truthy s then s else JStr []) of
        JStr str \<Rightarrow>
          (let m = toLowerCase str in
           Inr (if m = ''positive'' then ''POSITIVE''
                else if m = ''negative'' then ''NEGATIVE''
                else if m = ''very_positive'' then ''VERY_POSITIVE''
                else if m = ''very_negative'' then ''VERY_NEGATIVE''
                else ''NEUTRAL''))
      | _ \<Rightarrow> Inl TypeError)"

text \<open>
  What the race between \<open>model.generateContent\<close> and the 8000 ms timer, followed by
  \<open>JSON.parse\<close>, hands to the rest of \<open>analyzeText\<close>: the collaborator rejected or its
  response could not be read, the timer rejected first, the text was not JSON, or the
  text parsed to a value.
\<close>

datatype geminiOutcome =
    GenerateFailed
  | TimedOut
  | Unparsable
  | Parsed jsval

definition stringsOf :: "jsval list \<Rightarrow> string list" where
  "stringsOf xs = List.map_filter (\<lambda>v. case v of JStr s \<Rightarrow> Some s | _ \<Rightarrow> None) xs"

text \<open>Lines 57 to 71: validation and sanitising of the parsed response.\<close>

definition sanitize :: "jsval \<Rightarrow> error + TextAnalysis" where
  "sanitize analysis =
     (if nullish analysis then Inl TypeError
      else
        (case toSentimentUpper (propOf analysis ''sentiment'') of
           Inl e \<Rightarrow> Inl e
         | Inr sentiment \<Rightarrow>
             Inr \<lparr> ta_sentiment = sentiment,
                   ta_score =
                     max 0 (min 100
                       (case parseInt (propOf analysis ''score'') of
                          None \<Rightarrow> 50
                        | Some k \<Rightarrow> if k = 0 then 50 else k)),
                   ta_intent =
                     (if truthy (propOf analysis ''intent'') then propOf analysis ''intent''
                      else JStr ''general inquiry''),
                   ta_tags =
                     (case propOf analysis ''tags'' of
                        JArr xs \<Rightarrow> stringsOf (take 5 xs)
                      | _ \<Rightarrow> []) \<rparr>))"

definition defaultAnalysis :: TextAnalysis where
  "defaultAnalysis =
     \<lparr> ta_sentiment = ''NEUTRAL'', ta_score = 50, ta_intent = JStr ''general inquiry'',
       ta_tags = [] \<rparr>"

text \<open>\<open>analyzeText\<close>: every exception of the \<open>try\<close> block ends in the \<open>catch\<close>.\<close>

definition analyzeText :: "geminiOutcome \<Rightarrow> TextAnalysis" where
  "analyzeText outcome =
     (case outcome of
        Parsed analysis \<Rightarrow>
          (case sanitize analysis of Inl e \<Rightarrow> defaultAnalysis | Inr r \<Rightarrow> r)
      | _ \<Rightarrow> defaultAnalysis)"

section \<open>The store: \<open>prisma/migrations/20250903011014_init/migration.sql\<close>\<close>

text \<open>
  The enumerations of the schema, with the labels the migration declares. A row holds a
  value of the enumeration; a string that is not one of the labels cannot be stored, and
  the create or update that carries it is rejected.
\<close>

datatype CustomerSource = SRC_WHATSAPP | SRC_INSTAGRAM | SRC_MANUAL | SRC_OTHER

datatype CustomerStatus = ACTIVE | INACTIVE | BLOCKED

datatype MessageDirection = INBOUND | OUTBOUND

datatype MessagePlatform = PLAT_WHATSAPP | PLAT_INSTAGRAM | PLAT_MANUAL

datatype Sentiment = POSITIVE | NEUTRAL | NEGATIVE

datatype LeadStatus =
  NEW | CONTACTED | QUALIFIED | PROPOSAL | NEGOTIATION | CLOSED_WON | CLOSED_LOST

definition parseCustomerSource :: "string \<Rightarrow> CustomerSource option" where
  "parseCustomerSource =
     map_of [(''WHATSAPP'', SRC_WHATSAPP), (''INSTAGRAM'', SRC_INSTAGRAM),
             (''MANUAL'', SRC_MANUAL), (''OTHER'', SRC_OTHER)]"

definition parseMessageDirection :: "string \<Rightarrow> MessageDirection option" where
  "parseMessageDirection = map_of [(''INBOUND'', INBOUND), (''OUTBOUND'', OUTBOUND)]"

definition parseMessagePlatform :: "string \<Rightarrow> MessagePlatform option" where
  "parseMessagePlatform =
     map_of [(''WHATSAPP'', PLAT_WHATSAPP), (''INSTAGRAM'', PLAT_INSTAGRAM),
             (''MANUAL'', PLAT_MANUAL)]"

definition parseSentiment :: "string \<Rightarrow> Sentiment option" where
  "parseSentiment =
     map_of [(''POSITIVE'', POSITIVE), (''NEUTRAL'', NEUTRAL), (''NEGATIVE'', NEGATIVE)]"

text \<open>
  The tables the webhook touches. Ids are drawn from a counter; the two timestamps of
  every row are left out (no operation modelled here reads them). A nullable column is
  an \<open>option\<close>.
\<close>

record customer =
  c_id :: nat
  c_name :: string
  c_email :: "string option"
  c_phone :: "string option"
  c_company :: "string option"
  c_source :: CustomerSource
  c_status :: CustomerStatus
  c_tags :: "string list"
  c_notes :: "string option"

record message =
  m_id :: nat
  m_customerId :: nat
  m_content :: string
  m_direction :: MessageDirection
  m_platform :: MessagePlatform
  m_sentiment :: "Sentiment option"
  m_leadScore :: "int option"
  m_intent :: "string option"
  m_tags :: "string list option"
  m_metadata :: jsval

record lead =
  l_id :: nat
  l_customerId :: nat
  l_score :: int
  l_status :: LeadStatus
  l_source :: string
  l_notes :: "string option"

text \<open>The events of \<open>io.emit\<close>, in the order they were emitted.\<close>

datatype event =
    CustomerNew customer
  | MessageNew message
  | MessageUpdated message
  | LeadUpdate lead
  | LeadNew lead

record store =
  customers :: "customer list"
  messages :: "message list"
  leads :: "lead list"
  events :: "event list"
  nextId :: nat

definition emit :: "event \<Rightarrow> store \<Rightarrow> store" where
  "emit e s = s\<lparr> events := events s @ [e] \<rparr>"

subsection \<open>The Prisma calls of the controller\<close>

text \<open>
  Each call either throws, leaving the store as it was, or returns the row and the new
  store. The store is taken to be reachable: connection failures are not modelled.

  \<open>customer.findFirst({where: {OR: [{phone: p}, {email: e}]}})\<close>, with no ordering
  given, returns the first row in table order that satisfies some branch. A branch with
  a string compares the column with it, a branch with \<open>null\<close> selects the rows whose
  column is NULL. What a branch whose value is \<open>undefined\<close> (the payload has no such
  field) contributes is decided inside the Prisma client and query engine, which are
  not part of this repository: the key is not sent, which leaves an empty filter object
  in the list. Both readings are kept, as a parameter of the lookup: the empty object
  is dropped from the list, or it stays as a filter that every row satisfies.
\<close>

datatype undefinedRule = DropsBranch | MatchesAll

text \<open>
  An optional string field of a JSON body: the key is missing, its value is \<open>null\<close>, or
  it is a string. Stored in a nullable column, the first two are NULL.
\<close>

datatype payloadField = Absent | Null | Str string

definition columnOf :: "payloadField \<Rightarrow> string option" where
  "columnOf v = (case v of Str x \<Rightarrow> Some x | _ \<Rightarrow> None)"

definition orBranch ::
  "undefinedRule \<Rightarrow> payloadField \<Rightarrow> (customer \<Rightarrow> string option) \<Rightarrow> (customer \<Rightarrow> bool) list"
where
  "orBranch rule v column =
     (case v of
        Str x \<Rightarrow> [\<lambda>c. column c = Some x]
      | Null \<Rightarrow> [\<lambda>c. column c = None]
      | Absent \<Rightarrow> (case rule of DropsBranch \<Rightarrow> [] | MatchesAll \<Rightarrow> [\<lambda>c. True]))"

definition customer_findFirst ::
  "undefinedRule \<Rightarrow> payloadField \<Rightarrow> payloadField \<Rightarrow> store \<Rightarrow> customer option"
where
  "customer_findFirst rule phone email s =
     find (\<lambda>c. list_ex (\<lambda>branch. branch c) (orBranch rule phone c_phone @ orBranch rule email c_email))
       (customers s)"

text \<open>
  \<open>customer.create\<close>: \<open>name\<close> is required, \<open>source\<close> must be a label of
  \<open>CustomerSource\<close>; \<open>status\<close> takes the column default \<open>ACTIVE\<close>.
\<close>

definition customer_create ::
  "string option \<Rightarrow> string option \<Rightarrow> string option \<Rightarrow> string \<Rightarrow> string list \<Rightarrow> store
     \<Rightarrow> error + customer \<times> store"
where
  "customer_create name email phone source tags s =
     (case (name, parseCustomerSource source) of
        (Some n, Some src) \<Rightarrow>
          (let c = \<lparr> c_id = nextId s, c_name = n, c_email = email, c_phone = phone,
                      c_company = None, c_source = src, c_status = ACTIVE, c_tags = tags,
                      c_notes = None \<rparr>
           in Inr (c, s\<lparr> customers := customers s @ [c], nextId := nextId s + 1 \<rparr>))
      | _ \<Rightarrow> Inl ValidationError)"

text \<open>
  \<open>message.create\<close>: \<open>content\<close> is required, \<open>direction\<close> and \<open>platform\<close> must be
  labels of their enumerations, and \<open>customerId\<close> must reference a customer. The
  columns the call does not mention (sentiment, leadScore, intent, tags) are left unset.
\<close>

definition message_create ::
  "nat \<Rightarrow> string option \<Rightarrow> string \<Rightarrow> string \<Rightarrow> jsval \<Rightarrow> store \<Rightarrow> error + message \<times> store"
where
  "message_create customerId content direction platform metadata s =
     (case (content, parseMessageDirection direction, parseMessagePlatform platform) of
        (Some text, Some dir, Some plat) \<Rightarrow>
          if list_ex (\<lambda>c. c_id c = customerId) (customers s)
          then
            (let m = \<lparr> m_id = nextId s, m_customerId = customerId, m_content = text,
                        m_direction = dir, m_platform = plat, m_sentiment = None,
                        m_leadScore = None, m_intent = None, m_tags = None,
                        m_metadata = metadata \<rparr>
             in Inr (m, s\<lparr> messages := messages s @ [m], nextId := nextId s + 1 \<rparr>))
          else Inl ForeignKeyViolation
      | _ \<Rightarrow> Inl ValidationError)"

text \<open>
  \<open>message.update({where: {id}, data: {sentiment, leadScore, intent, tags}})\<close>:
  \<open>sentiment\<close> must be a label of \<open>Sentiment\<close>, \<open>intent\<close> a string, and the row must
  exist.
\<close>

definition message_update ::
  "nat \<Rightarrow> string \<Rightarrow> int \<Rightarrow> jsval \<Rightarrow> string list \<Rightarrow> store \<Rightarrow> error + message \<times> store"
where
  "message_update i sentiment leadScore intent tags s =
     (case (parseSentiment sentiment, intent) of
        (Some sen, JStr txt) \<Rightarrow>
          (case find (\<lambda>m. m_id m = i) (messages s) of
             None \<Rightarrow> Inl RecordNotFound
           | Some m \<Rightarrow>
               (let upd = (\<lambda>r. r\<lparr> m_sentiment := Some sen, m_leadScore := Some leadScore,
                                    m_intent := Some txt, m_tags := Some tags \<rparr>)
                in Inr (upd m,
                        s\<lparr> messages := map (\<lambda>r. if m_id r = i then upd r else r) (messages s) \<rparr>)))
      | _ \<Rightarrow> Inl ValidationError)"

definition lead_findFirst :: "nat \<Rightarrow> store \<Rightarrow> lead option" where
  "lead_findFirst customerId s = find (\<lambda>l. l_customerId l = customerId) (leads s)"

definition lead_update :: "nat \<Rightarrow> int \<Rightarrow> string \<Rightarrow> store \<Rightarrow> error + lead \<times> store" where
  "lead_update i score notes s =
     (case find (\<lambda>l. l_id l = i) (leads s) of
        None \<Rightarrow> Inl RecordNotFound
      | Some l \<Rightarrow>
          (let upd = (\<lambda>r. r\<lparr> l_score := score, l_notes := Some notes \<rparr>)
           in Inr (upd l, s\<lparr> leads := map (\<lambda>r. if l_id r = i then upd r else r) (leads s) \<rparr>)))"

text \<open>\<open>lead.create\<close>: \<open>customerId\<close> must reference a customer.\<close>

definition lead_create ::
  "nat \<Rightarrow> int \<Rightarrow> LeadStatus \<Rightarrow> string \<Rightarrow> string \<Rightarrow> store \<Rightarrow> error + lead \<times> store"
where
  "lead_create customerId score status source notes s =
     (if list_ex (\<lambda>c. c_id c = customerId) (customers s)
      then
        (let l = \<lparr> l_id = nextId s, l_customerId = customerId, l_score = score,
                    l_status = status, l_source = source, l_notes = Some notes \<rparr>
         in Inr (l, s\<lparr> leads := leads s @ [l], nextId := nextId s + 1 \<rparr>))
      else Inl ForeignKeyViolation)"

section \<open>The webhook controller: \<open>N8NWebhookController\<close> (\<open>src/unnamed/part_011\<close>)\<close>

definition toChannelUpper :: "string option \<Rightarrow> string" where
  "toChannelUpper c =
     (let channel = toLowerCase (case c of None \<Rightarrow> [] | Some x \<Rightarrow> x) in
      if channel = ''whatsapp'' then ''WHATSAPP''
      else if channel = ''instagram'' then ''INSTAGRAM''
      else ''UNKNOWN'')"

definition toDirectionUpper :: "string option \<Rightarrow> string" where
  "toDirectionUpper d =
     (let direction = toLowerCase (case d of None \<Rightarrow> [] | Some x \<Rightarrow> x) in
      if direction = ''outbound'' then ''OUTBOUND'' else ''INBOUND'')"

text \<open>
  The request body, with the fields of \<open>N8NWebhookPayload\<close>. Nothing checks the body
  against that type, so a field the type requires may still be missing (\<open>None\<close>), and
  \<open>platform\<close> and \<open>direction\<close> are any strings.
\<close>

record payloadCustomer =
  pc_id :: "string option"
  pc_name :: "string option"
  pc_phone :: payloadField
  pc_email :: payloadField

record payloadMessage =
  pm_content :: "string option"
  pm_direction :: "string option"
  pm_timestamp :: "string option"
  pm_metadata :: "(string \<times> jsval) list option"

record payload =
  p_platform :: "string option"
  p_customer :: "payloadCustomer option"
  p_message :: "payloadMessage option"

text \<open>
  A request: the \<open>x-webhook-secret\<close> header (\<open>None\<close> when the request has none) and the
  body. The configured secret, \<open>process.env.N8N_WEBHOOK_SECRET\<close>, is \<open>None\<close> when the
  variable is unset.
\<close>

record request =
  webhookSecret :: "string option"
  body :: payload

record response =
  r_status :: nat
  r_success :: bool
  r_data :: "(nat \<times> nat) option"
  r_error :: "string option"
  r_message :: "string option"

definition unauthorized :: response where
  "unauthorized =
     \<lparr> r_status = 401, r_success = False, r_data = None,
       r_error = Some ''Invalid webhook secret'', r_message = None \<rparr>"

definition badRequest :: response where
  "badRequest =
     \<lparr> r_status = 400, r_success = False, r_data = None,
       r_error = Some ''Invalid payload structure'', r_message = None \<rparr>"

definition serverError :: response where
  "serverError =
     \<lparr> r_status = 500, r_success = False, r_data = None,
       r_error = Some ''Internal server error'', r_message = None \<rparr>"

definition processed :: "nat \<Rightarrow> nat \<Rightarrow> response" where
  "processed customerId messageId =
     \<lparr> r_status = 200, r_success = True, r_data = Some (customerId, messageId),
       r_error = None, r_message = Some ''Webhook processed successfully'' \<rparr>"

text \<open>
  What the promise chain started at line 97 keeps of the request: the ids of the message
  and the customer, and the platform string of the payload.
\<close>

record task =
  t_messageId :: nat
  t_customerId :: nat
  t_platform :: string

text \<open>
  Lines 47 to 70: find or create the customer. A throw keeps the store as it was then.
\<close>

definition resolveCustomer ::
  "undefinedRule \<Rightarrow> string \<Rightarrow> payloadCustomer \<Rightarrow> store \<Rightarrow> error + customer \<times> store"
where
  "resolveCustomer rule platform pc s =
     (case customer_findFirst rule (pc_phone pc) (pc_email pc) s of
        Some c \<Rightarrow> Inr (c, s)
      | None \<Rightarrow>
          (case customer_create (pc_name pc) (columnOf (pc_email pc)) (columnOf (pc_phone pc))
                  (toChannelUpper (Some platform)) [] s of
             Inl e \<Rightarrow> Inl e
           | Inr (c, s1) \<Rightarrow> Inr (c, emit (CustomerNew c) s1)))"

text \<open>
  \<open>handleWebhook\<close> up to its response: the response, the store it leaves and, when the
  message was recorded, the analysis it started. Every throw inside the \<open>try\<close> ends in
  the \<open>catch\<close> of line 192, which answers 500.
\<close>

definition handleWebhook ::
  "undefinedRule \<Rightarrow> string option \<Rightarrow> request \<Rightarrow> store \<Rightarrow> response \<times> store \<times> task option"
where
  "handleWebhook rule envSecret req s =
     (if webhookSecret req \<noteq> envSecret then (unauthorized, s, None)
      else
        (case (p_platform (body req), p_customer (body req), p_message (body req)) of
           (Some platform, Some pc, Some pm) \<Rightarrow>
             if platform = [] then (badRequest, s, None)
             else
               (case resolveCustomer rule platform pc s of
                  Inl e \<Rightarrow> (serverError, s, None)
                | Inr (customer, s1) \<Rightarrow>
                    (case message_create (c_id customer) (pm_content pm)
                            (toDirectionUpper (pm_direction pm))
                            (toChannelUpper (Some platform))
                            (case pm_metadata pm of None \<Rightarrow> JObj [] | Some kvs \<Rightarrow> JObj kvs) s1 of
                       Inl e \<Rightarrow> (serverError, s1, None)
                     | Inr (message, s2) \<Rightarrow>
                         (processed (c_id customer) (m_id message),
                          emit (MessageNew message) s2,
                          Some \<lparr> t_messageId = m_id message, t_customerId = c_id customer,
                                 t_platform = platform \<rparr>)))
         | _ \<Rightarrow> (badRequest, s, None)))"

text \<open>
  Lines 123 to 178: create or update the lead when the score is high enough. The notes
  of the lead found count as present when they are neither \<open>null\<close> nor empty.
\<close>

definition leadDerivation :: "TextAnalysis \<Rightarrow> task \<Rightarrow> store \<Rightarrow> error + store" where
  "leadDerivation analysis t s =
     (if ta_score analysis \<ge> 70 then
        (case lead_findFirst (t_customerId t) s of
           Some existingLead \<Rightarrow>
             (case lead_update (l_id existingLead)
                     (max (l_score existingLead) (ta_score analysis))
                     (case l_notes existingLead of
                        None \<Rightarrow> ''AI Analysis: '' @ js_toString (ta_intent analysis)
                      | Some notes \<Rightarrow>
                          if notes = [] then ''AI Analysis: '' @ js_toString (ta_intent analysis)
                          else notes @ [CHR 0x0A, CHR 0x0A] @ ''New analysis: ''
                                 @ js_toString (ta_intent analysis)) s of
                Inl e \<Rightarrow> Inl e
              | Inr (updatedLead, s1) \<Rightarrow> Inr (emit (LeadUpdate updatedLead) s1))
         | None \<Rightarrow>
             (case lead_create (t_customerId t) (ta_score analysis) NEW
                     (''AI Analysis - '' @ t_platform t)
                     (''AI Analysis: '' @ js_toString (ta_intent analysis)) s of
                Inl e \<Rightarrow> Inl e
              | Inr (newLead, s1) \<Rightarrow> Inr (emit (LeadNew newLead) s1)))
      else Inr s)"

text \<open>
  Lines 98 to 182: the continuation that runs once \<open>analyzeText\<close> has resolved, on the
  store as it is then. A throw is caught and logged by line 180, and whatever was
  written before it stays.
\<close>

definition enrichment :: "TextAnalysis \<Rightarrow> task \<Rightarrow> store \<Rightarrow> store" where
  "enrichment analysis t s =
     (case message_update (t_messageId t) (ta_sentiment analysis) (ta_score analysis)
             (ta_intent analysis) (ta_tags analysis) s of
        Inl e \<Rightarrow> s
      | Inr (updatedMessage, s1) \<Rightarrow>
          (let s2 = emit (MessageUpdated updatedMessage) s1 in
           case leadDerivation analysis t s2 of Inl e \<Rightarrow> s2 | Inr s3 \<Rightarrow> s3))"

text \<open>
  One request served alone: the handler answers, then the analysis resolves with the
  given outcome and its continuation runs on the store the handler left.
\<close>

definition deliver ::
  "undefinedRule \<Rightarrow> string option \<Rightarrow> request \<Rightarrow> geminiOutcome \<Rightarrow> store \<Rightarrow> response \<times> store"
where
  "deliver rule envSecret req outcome s =
     (case handleWebhook rule envSecret req s of
        (res, s1, None) \<Rightarrow> (res, s1)
      | (res, s1, Some t) \<Rightarrow> (res, enrichment (analyzeText outcome) t s1))"

section \<open>Vocabulary of the properties and example inputs\<close>

text \<open>A platform string the controller maps to a label other than \<open>UNKNOWN\<close>.\<close>

definition recognised :: "string \<Rightarrow> bool" where
  "recognised platform =
     (toLowerCase platform = ''whatsapp'' \<or> toLowerCase platform = ''instagram'')"

definition emptyStore :: store where
  "emptyStore = \<lparr> customers = [], messages = [], leads = [], events = [], nextId = 0 \<rparr>"

text \<open>
  The payload of the end-to-end scenario (Ann, phone +1, email \<open>null\<close>), for a given
  platform string, and the request that carries it under a given header.
\<close>

definition annPayload :: "string \<Rightarrow> payload" where
  "annPayload platform =
     \<lparr> p_platform = Some platform,
       p_customer =
         Some \<lparr> pc_id = None, pc_name = Some ''Ann'', pc_phone = Str ''+1'',
                pc_email = Null \<rparr>,
       p_message =
         Some \<lparr> pm_content = Some ''I want to buy now'', pm_direction = Some ''inbound'',
                pm_timestamp = Some ''2024-01-01T00:00:00Z'', pm_metadata = None \<rparr> \<rparr>"

definition annRequest :: "string option \<Rightarrow> string \<Rightarrow> request" where
  "annRequest header platform = \<lparr> webhookSecret = header, body = annPayload platform \<rparr>"

text \<open>
  The analysis did not produce a result of its own: the collaborator failed, the timer
  won, the text was not JSON, or sanitising the parsed value threw.
\<close>

definition collaboratorFailed :: "geminiOutcome \<Rightarrow> bool" where
  "collaboratorFailed outcome =
     (case outcome of Parsed analysis \<Rightarrow> isl (sanitize analysis) | _ \<Rightarrow> True)"

text \<open>A message row with the neutral default written into its enrichment columns.\<close>

definition neutralDefault :: "message \<Rightarrow> message" where
  "neutralDefault r =
     r\<lparr> m_sentiment := Some NEUTRAL, m_leadScore := Some 50,
        m_intent := Some ''general inquiry'', m_tags := Some [] \<rparr>"

text \<open>Example analysis results and the task of the example request.\<close>

definition hotAnalysis :: TextAnalysis where
  "hotAnalysis =
     \<lparr> ta_sentiment = ''POSITIVE'', ta_score = 85, ta_intent = JStr ''buy'',
       ta_tags = [''hot''] \<rparr>"

definition coldAnalysis :: TextAnalysis where
  "coldAnalysis =
     \<lparr> ta_sentiment = ''NEUTRAL'', ta_score = 65, ta_intent = JStr ''browse'',
       ta_tags = [] \<rparr>"

definition annTask :: task where
  "annTask = \<lparr> t_messageId = 1, t_customerId = 0, t_platform = ''whatsapp'' \<rparr>"

text \<open>The rows and the store the example request leaves on the empty store.\<close>

definition annRow :: customer where
  "annRow =
     \<lparr> c_id = 0, c_name = ''Ann'', c_email = None, c_phone = Some ''+1'', c_company = None,
       c_source = SRC_WHATSAPP, c_status = ACTIVE, c_tags = [], c_notes = None \<rparr>"

definition annMessage :: message where
  "annMessage =
     \<lparr> m_id = 1, m_customerId = 0, m_content = ''I want to buy now'', m_direction = INBOUND,
       m_platform = PLAT_WHATSAPP, m_sentiment = None, m_leadScore = None, m_intent = None,
       m_tags = None, m_metadata = JObj [] \<rparr>"

definition annStore :: store where
  "annStore =
     \<lparr> customers = [annRow], messages = [annMessage], leads = [],
       events = [CustomerNew annRow, MessageNew annMessage], nextId = 2 \<rparr>"

text \<open>
  What the lead step makes of the lead it found: the larger of the two scores, and the
  notes extended by the intent.
\<close>

definition raisedLead :: "TextAnalysis \<Rightarrow> lead \<Rightarrow> lead" where
  "raisedLead a e =
     e\<lparr> l_score := max (l_score e) (ta_score a),
        l_notes :=
          Some (case l_notes e of
                  None \<Rightarrow> ''AI Analysis: '' @ js_toString (ta_intent a)
                | Some notes \<Rightarrow>
                    if notes = [] then ''AI Analysis: '' @ js_toString (ta_intent a)
                    else notes @ [CHR 0x0A, CHR 0x0A] @ ''New analysis: ''
                           @ js_toString (ta_intent a)) \<rparr>"

text \<open>The example store with a lead entered by hand for the customer.\<close>

definition calledLead :: lead where
  "calledLead =
     \<lparr> l_id = 2, l_customerId = 0, l_score = 60, l_status = CONTACTED,
       l_source = ''manual'', l_notes = Some ''called once'' \<rparr>"

definition leadStore :: store where
  "leadStore = annStore\<lparr> leads := [calledLead], nextId := 3 \<rparr>"


text \<open>The parts of what \<open>handleWebhook\<close> returns in this model.\<close>

abbreviation responseOf :: "response \<times> store \<times> task option \<Rightarrow> response" where
  "responseOf r \<equiv> fst r"

abbreviation storeOf :: "response \<times> store \<times> task option \<Rightarrow> store" where
  "storeOf r \<equiv> fst (snd r)"



text \<open>
  The rows the handler writes for a payload with a recognised platform: the message, with
  its enrichment columns unset, and the customer.
\<close>

definition recordedMessage :: "nat \<Rightarrow> nat \<Rightarrow> string \<Rightarrow> payloadMessage \<Rightarrow> message" where
  "recordedMessage i customerId platform pm =
     \<lparr> m_id = i, m_customerId = customerId,
       m_content = (case pm_content pm of None \<Rightarrow> [] | Some text \<Rightarrow> text),
       m_direction =
         (if toLowerCase (case pm_direction pm of None \<Rightarrow> [] | Some d \<Rightarrow> d) = ''outbound''
          then OUTBOUND else INBOUND),
       m_platform =
         (if toLowerCase platform = ''whatsapp'' then PLAT_WHATSAPP else PLAT_INSTAGRAM),
       m_sentiment = None, m_leadScore = None, m_intent = None, m_tags = None,
       m_metadata = (case pm_metadata pm of None \<Rightarrow> JObj [] | Some kvs \<Rightarrow> JObj kvs) \<rparr>"





section \<open>Normalisation lemmas\<close>

lemma toChannelUpper_cases:
  "toChannelUpper c = ''WHATSAPP'' \<or> toChannelUpper c = ''INSTAGRAM''
     \<or> toChannelUpper c = ''UNKNOWN''"
  by (simp add: toChannelUpper_def Let_def)

lemma parse_platform_recognised:
  "recognised p \<Longrightarrow>
     parseMessagePlatform (toChannelUpper (Some p)) \<noteq> None \<and>
     parseCustomerSource (toChannelUpper (Some p)) \<noteq> None"
  by (auto simp: recognised_def toChannelUpper_def parseMessagePlatform_def
      parseCustomerSource_def)

lemma parse_platform_unrecognised:
  "\<not> recognised p \<Longrightarrow>
     parseMessagePlatform (toChannelUpper (Some p)) = None \<and>
     parseCustomerSource (toChannelUpper (Some p)) = None"
  by (auto simp: recognised_def toChannelUpper_def parseMessagePlatform_def
      parseCustomerSource_def)

lemma parse_direction: "parseMessageDirection (toDirectionUpper d) \<noteq> None"
  by (simp add: toDirectionUpper_def parseMessageDirection_def Let_def)

section \<open>Authentication\<close>

text \<open>
  Claim C2. A request whose \<open>x-webhook-secret\<close> header differs from the configured
  secret is answered 401 with \<open>success: false\<close>, and nothing else happens: the store
  (customers, messages, leads, emitted events) is the one before the request, and no
  analysis is started, so the store still is that one after any analysis outcome.
\<close>

theorem unauthorized_request_has_no_effect:
  "webhookSecret req \<noteq> envSecret \<Longrightarrow>
     handleWebhook rule envSecret req s = (unauthorized, s, None) \<and>
     deliver rule envSecret req outcome s = (unauthorized, s) \<and>
     r_status unauthorized = 401 \<and> \<not> r_success unauthorized"
  by (simp add: handleWebhook_def deliver_def unauthorized_def)

theorem unauthorized_request_has_no_effect_witness:
  "Some ''guess'' \<noteq> Some ''s3cret'' \<and>
   handleWebhook DropsBranch (Some ''s3cret'') (annRequest (Some ''guess'') ''whatsapp'')
     emptyStore = (unauthorized, emptyStore, None) \<and>
   deliver DropsBranch (Some ''s3cret'') (annRequest (Some ''guess'') ''whatsapp'') TimedOut
     emptyStore = (unauthorized, emptyStore)"
  using unauthorized_request_has_no_effect
    [of "annRequest (Some ''guess'') ''whatsapp''" "Some ''s3cret''" DropsBranch emptyStore
      TimedOut]
  by (simp add: annRequest_def)

lemmas handler_eval =
  handleWebhook_def annRequest_def annPayload_def emptyStore_def resolveCustomer_def
  customer_findFirst_def orBranch_def columnOf_def customer_create_def toChannelUpper_def
  toLowerCase_def lowerChar_def parseCustomerSource_def emit_def message_create_def
  toDirectionUpper_def parseMessageDirection_def parseMessagePlatform_def Let_def
  processed_def serverError_def badRequest_def unauthorized_def

lemma authorized_status:
  "webhookSecret req = envSecret \<Longrightarrow>
     r_status (fst (handleWebhook rule envSecret req s)) \<in> {200, 400, 500}"
  by (simp add: handleWebhook_def badRequest_def serverError_def processed_def
      split: option.splits sum.splits prod.splits)

text \<open>
  Claim C9. The guard compares the header with the configured secret by strict
  inequality, so the answer is 401 exactly when the two differ. When the secret is unset
  and the request carries no header the two are equal (both absent): the request passes
  the check and is handled exactly as a request that presents a configured secret.
\<close>

theorem unset_secret_admits_headerless_request:
  "(r_status (fst (handleWebhook rule envSecret req s)) = 401)
     = (webhookSecret req \<noteq> envSecret) \<and>
   handleWebhook rule None (req\<lparr> webhookSecret := None \<rparr>) s
     = handleWebhook rule (Some k) (req\<lparr> webhookSecret := Some k \<rparr>) s"
proof -
  have differs: "r_status (fst (handleWebhook rule envSecret req s)) = 401"
    if "webhookSecret req \<noteq> envSecret"
    using that by (simp add: handleWebhook_def unauthorized_def)
  have equal: "r_status (fst (handleWebhook rule envSecret req s)) \<noteq> 401"
    if "webhookSecret req = envSecret"
    using authorized_status [OF that, of rule s] by auto
  have same: "handleWebhook rule None (req\<lparr> webhookSecret := None \<rparr>) s
     = handleWebhook rule (Some k) (req\<lparr> webhookSecret := Some k \<rparr>) s"
    by (simp add: handleWebhook_def)
  from differs equal same show ?thesis by blast
qed

theorem unset_secret_admits_headerless_request_witness:
  "r_status (fst (handleWebhook DropsBranch None (annRequest None ''whatsapp'') emptyStore))
     \<noteq> 401 \<and>
   fst (handleWebhook DropsBranch None (annRequest None ''whatsapp'') emptyStore)
     = processed 0 1 \<and>
   handleWebhook DropsBranch None (annRequest None ''whatsapp'') emptyStore
     = handleWebhook DropsBranch (Some ''s3cret'') (annRequest (Some ''s3cret'') ''whatsapp'')
         emptyStore"
  using unset_secret_admits_headerless_request
    [of DropsBranch None "annRequest None ''whatsapp''" emptyStore "''s3cret''"]
  by (simp add: handler_eval)

section \<open>The example request, evaluated\<close>

lemma ann_handled:
  "handleWebhook DropsBranch (Some ''s3cret'') (annRequest (Some ''s3cret'') ''whatsapp'')
     emptyStore = (processed 0 1, annStore, Some annTask)"
  by (simp add: annStore_def annTask_def annRow_def annMessage_def handler_eval)

lemmas continuation_eval =
  enrichment_def leadDerivation_def message_update_def lead_findFirst_def lead_update_def
  lead_create_def parseSentiment_def emit_def Let_def annStore_def annTask_def annRow_def
  annMessage_def hotAnalysis_def coldAnalysis_def defaultAnalysis_def neutralDefault_def

section \<open>Normalisation of platform and direction\<close>

text \<open>
  Claim C8. \<open>toChannelUpper\<close> maps every platform string other than whatsapp and
  instagram (in any casing) to \<open>UNKNOWN\<close>, and \<open>toDirectionUpper\<close> maps every direction
  other than outbound to \<open>INBOUND\<close>, a label the schema has. \<open>UNKNOWN\<close> is a label of
  neither \<open>CustomerSource\<close> nor \<open>MessagePlatform\<close>: an authorized request that passes
  validation with such a platform is answered 500, whatever the store holds, and it
  leaves the store as it was. The request does not succeed.
\<close>

theorem unrecognised_platform_fails_the_request:
  assumes "webhookSecret req = envSecret"
    and "p_platform (body req) = Some platform" and "platform \<noteq> []"
    and "\<not> recognised platform"
    and "p_customer (body req) = Some pc" and "p_message (body req) = Some pm"
  shows "toChannelUpper (Some platform) = ''UNKNOWN'' \<and>
         parseMessageDirection (toDirectionUpper (pm_direction pm)) \<noteq> None \<and>
         handleWebhook rule envSecret req s = (serverError, s, None) \<and>
         r_status serverError = 500"
proof -
  have unknown: "toChannelUpper (Some platform) = ''UNKNOWN''"
    using assms(4) by (simp add: toChannelUpper_def recognised_def)
  have "handleWebhook rule envSecret req s = (serverError, s, None)"
    using assms unknown
    by (simp add: handleWebhook_def resolveCustomer_def customer_create_def
        message_create_def parseCustomerSource_def parseMessagePlatform_def
        split: option.splits sum.splits prod.splits)
  with unknown parse_direction show ?thesis by (simp add: serverError_def)
qed

theorem unrecognised_platform_fails_the_request_witness:
  "\<not> recognised ''telegram'' \<and>
   toChannelUpper (Some ''telegram'') = ''UNKNOWN'' \<and>
   handleWebhook DropsBranch (Some ''s3cret'') (annRequest (Some ''s3cret'') ''telegram'')
     emptyStore = (serverError, emptyStore, None) \<and>
   handleWebhook MatchesAll (Some ''s3cret'') (annRequest (Some ''s3cret'') ''telegram'')
     annStore = (serverError, annStore, None)"
proof -
  have no: "\<not> recognised ''telegram''"
    by (simp add: recognised_def toLowerCase_def lowerChar_def)
  have req: "webhookSecret (annRequest (Some ''s3cret'') ''telegram'') = Some ''s3cret''"
    "p_platform (body (annRequest (Some ''s3cret'') ''telegram'')) = Some ''telegram''"
    "p_customer (body (annRequest (Some ''s3cret'') ''telegram''))
       = Some \<lparr> pc_id = None, pc_name = Some ''Ann'', pc_phone = Str ''+1'', pc_email = Null \<rparr>"
    "p_message (body (annRequest (Some ''s3cret'') ''telegram''))
       = Some \<lparr> pm_content = Some ''I want to buy now'', pm_direction = Some ''inbound'',
                pm_timestamp = Some ''2024-01-01T00:00:00Z'', pm_metadata = None \<rparr>"
    by (simp_all add: annRequest_def annPayload_def)
  have ne: "''telegram'' \<noteq> []" by simp
  show ?thesis
    using no
      unrecognised_platform_fails_the_request [OF req(1) req(2) ne no req(3) req(4),
        of DropsBranch emptyStore]
      unrecognised_platform_fails_the_request [OF req(1) req(2) ne no req(3) req(4),
        of MatchesAll annStore]
    by simp
qed

section \<open>Enrichment and lead derivation\<close>

lemma find_by_key:
  "distinct (map f xs) \<Longrightarrow> x \<in> set xs \<Longrightarrow> find (\<lambda>y. f y = f x) xs = Some x"
  by (induction xs) auto


lemma analyzeText_failure:
  "collaboratorFailed outcome \<Longrightarrow> analyzeText outcome = defaultAnalysis"
  by (auto simp: analyzeText_def collaboratorFailed_def
      split: geminiOutcome.splits sum.splits)

lemma enrichment_default:
  assumes "list_ex (\<lambda>r. m_id r = t_messageId t) (messages s)"
  shows "messages (enrichment defaultAnalysis t s)
           = map (\<lambda>r. if m_id r = t_messageId t then neutralDefault r else r) (messages s)
         \<and> leads (enrichment defaultAnalysis t s) = leads s
         \<and> customers (enrichment defaultAnalysis t s) = customers s"
proof -
  from assms obtain m where m: "find (\<lambda>r. m_id r = t_messageId t) (messages s) = Some m"
    by (cases "find (\<lambda>r. m_id r = t_messageId t) (messages s)")
       (auto simp: find_None_iff list_ex_iff)
  have upd: "message_update (t_messageId t) ''NEUTRAL'' 50 (JStr ''general inquiry'') [] s
      = Inr (neutralDefault m,
             s\<lparr> messages :=
                  map (\<lambda>r. if m_id r = t_messageId t then neutralDefault r else r)
                    (messages s) \<rparr>)"
    using m by (simp add: message_update_def parseSentiment_def neutralDefault_def)
  show ?thesis
    using upd by (simp add: enrichment_def defaultAnalysis_def leadDerivation_def emit_def)
qed

lemma deliver_response:
  "fst (deliver rule envSecret req outcome s) = fst (handleWebhook rule envSecret req s)"
  by (simp add: deliver_def split: prod.splits option.splits)

lemma task_only_after_success:
  "handleWebhook rule envSecret req s = (res, s1, Some t) \<Longrightarrow>
     r_status res = 200 \<and> r_success res
       \<and> list_ex (\<lambda>r. m_id r = t_messageId t) (messages s1)"
  by (auto simp: handleWebhook_def processed_def message_create_def emit_def Let_def
      split: if_splits option.splits sum.splits prod.splits)

text \<open>
  Claim C6. When the collaborator fails (it throws, the 8000 ms timer rejects first, the
  response is not JSON, or sanitising throws) \<open>analyzeText\<close> returns exactly the neutral
  default. The response to the webhook caller is the one the handler had already given,
  whatever the outcome of the analysis; an analysis is only started after a 200. The
  continuation then writes the default into the message: after a request served alone,
  and on any later store that still holds the message, the rows with the message's id
  carry NEUTRAL, 50, "general inquiry" and no tags.
\<close>

theorem analysis_failure_is_absorbed:
  assumes "collaboratorFailed outcome"
  shows "analyzeText outcome =
           \<lparr> ta_sentiment = ''NEUTRAL'', ta_score = 50, ta_intent = JStr ''general inquiry'',
             ta_tags = [] \<rparr> \<and>
         fst (deliver rule envSecret req outcome s) = fst (handleWebhook rule envSecret req s) \<and>
         (\<forall>res s1 t. handleWebhook rule envSecret req s = (res, s1, Some t) \<longrightarrow>
            r_status res = 200 \<and> r_success res \<and>
            list_ex (\<lambda>r. m_id r = t_messageId t) (messages s1) \<and>
            messages (snd (deliver rule envSecret req outcome s))
              = map (\<lambda>r. if m_id r = t_messageId t then neutralDefault r else r)
                  (messages s1)) \<and>
         (\<forall>t s'. list_ex (\<lambda>r. m_id r = t_messageId t) (messages s') \<longrightarrow>
            messages (enrichment (analyzeText outcome) t s')
              = map (\<lambda>r. if m_id r = t_messageId t then neutralDefault r else r)
                  (messages s'))"
proof -
  have d: "analyzeText outcome = defaultAnalysis"
    using assms by (rule analyzeText_failure)
  have run: "r_status res = 200 \<and> r_success res \<and>
            list_ex (\<lambda>r. m_id r = t_messageId t) (messages s1) \<and>
            messages (snd (deliver rule envSecret req outcome s))
              = map (\<lambda>r. if m_id r = t_messageId t then neutralDefault r else r)
                  (messages s1)"
    if h: "handleWebhook rule envSecret req s = (res, s1, Some t)" for res s1 t
  proof -
    note ok = task_only_after_success [OF h]
    then have ex: "list_ex (\<lambda>r. m_id r = t_messageId t) (messages s1)" by simp
    have "snd (deliver rule envSecret req outcome s) = enrichment defaultAnalysis t s1"
      using h d by (simp add: deliver_def)
    with ok enrichment_default [OF ex] show ?thesis by simp
  qed
  show ?thesis
    using d run enrichment_default deliver_response
    by (simp add: defaultAnalysis_def)
qed

theorem analysis_failure_is_absorbed_witness:
  "collaboratorFailed TimedOut \<and>
   deliver DropsBranch (Some ''s3cret'') (annRequest (Some ''s3cret'') ''whatsapp'') TimedOut
     emptyStore
     = (processed 0 1,
        annStore\<lparr> messages := [neutralDefault annMessage],
                  events := events annStore @ [MessageUpdated (neutralDefault annMessage)] \<rparr>)"
proof -
  have f: "collaboratorFailed TimedOut" by (simp add: collaboratorFailed_def)
  from analysis_failure_is_absorbed
    [OF f, of DropsBranch "Some ''s3cret''" "annRequest (Some ''s3cret'') ''whatsapp''"
      emptyStore]
  have "analyzeText TimedOut =
      \<lparr> ta_sentiment = ''NEUTRAL'', ta_score = 50, ta_intent = JStr ''general inquiry'',
        ta_tags = [] \<rparr>"
    by simp
  then show ?thesis
    using f by (simp add: deliver_def ann_handled continuation_eval)
qed



lemma find_map_same:
  "(\<And>x. P (g x) = P x) \<Longrightarrow> find P (map g xs) = map_option g (find P xs)"
  by (induction xs) auto

lemma map_at_key:
  "distinct (map f xs) \<Longrightarrow> x \<in> set xs \<Longrightarrow>
     map (\<lambda>r. if f r = f x then g r else r) xs = map (\<lambda>r. if r = x then g x else r) xs"
  by (rule map_cong) (auto simp: distinct_map inj_on_def)

text \<open>
  Claim C5. The lead step of the continuation, for a score of at least 70 and a customer
  who has a lead (the first one in table order; lead ids are the primary key). It
  replaces that lead, and no other row, by the lead with score
  \<open>max existingScore newScore\<close>, which is never below the existing score, and with the
  intent appended to the notes: after the prior notes, two newlines and "New analysis: "
  when there are prior notes, as "AI Analysis: " and the intent when there are none.
  Identity, status and source of the lead stay, and a lead-update event is emitted.
\<close>

theorem existing_lead_score_never_decreases:
  assumes hi: "70 \<le> ta_score a"
    and found: "lead_findFirst (t_customerId t) s = Some e"
    and pk: "distinct (map l_id (leads s))"
  shows "\<exists>e' s'. leadDerivation a t s = Inr s' \<and>
           leads s' = map (\<lambda>r. if r = e then e' else r) (leads s) \<and>
           lead_findFirst (t_customerId t) s' = Some e' \<and>
           events s' = events s @ [LeadUpdate e'] \<and>
           l_id e' = l_id e \<and> l_status e' = l_status e \<and> l_source e' = l_source e \<and>
           l_score e' = max (l_score e) (ta_score a) \<and> l_score e \<le> l_score e' \<and>
           (\<forall>n. l_notes e = Some n \<and> n \<noteq> [] \<longrightarrow>
              l_notes e' = Some (n @ [CHR 0x0A, CHR 0x0A] @ ''New analysis: ''
                                  @ js_toString (ta_intent a))) \<and>
           (l_notes e = None \<or> l_notes e = Some [] \<longrightarrow>
              l_notes e' = Some (''AI Analysis: '' @ js_toString (ta_intent a)))"
proof -
  from found have mem: "e \<in> set (leads s)" and cust: "l_customerId e = t_customerId t"
    by (auto simp: lead_findFirst_def find_Some_iff)
  have byid: "find (\<lambda>l. l_id l = l_id e) (leads s) = Some e"
    using pk mem by (rule find_by_key)
  have lu: "lead_update (l_id e) sc nt s
      = Inr (e\<lparr> l_score := sc, l_notes := Some nt \<rparr>,
             s\<lparr> leads :=
                  map (\<lambda>r. if r = e then e\<lparr> l_score := sc, l_notes := Some nt \<rparr> else r)
                    (leads s) \<rparr>)" for sc nt
    unfolding lead_update_def Let_def byid
    by (simp add: map_at_key [OF pk mem])
  define s' where "s' = emit (LeadUpdate (raisedLead a e))
      (s\<lparr> leads := map (\<lambda>r. if r = e then raisedLead a e else r) (leads s) \<rparr>)"
  have step: "leadDerivation a t s = Inr s'"
    unfolding leadDerivation_def s'_def raisedLead_def
    using hi found by (simp add: lu)
  have again: "lead_findFirst (t_customerId t) s' = Some (raisedLead a e)"
  proof -
    have "find (\<lambda>l. l_customerId l = t_customerId t)
            (map (\<lambda>r. if r = e then raisedLead a e else r) (leads s))
          = map_option (\<lambda>r. if r = e then raisedLead a e else r)
              (find (\<lambda>l. l_customerId l = t_customerId t) (leads s))"
      by (rule find_map_same) (simp add: raisedLead_def cust)
    with found show ?thesis
      by (simp add: lead_findFirst_def s'_def emit_def)
  qed
  show ?thesis
    using step again
    by (intro exI [of _ "raisedLead a e"] exI [of _ s'])
       (auto simp: s'_def emit_def raisedLead_def)
qed

theorem existing_lead_score_never_decreases_witness:
  "70 \<le> ta_score hotAnalysis \<and>
   lead_findFirst (t_customerId annTask) leadStore = Some calledLead \<and>
   distinct (map l_id (leads leadStore)) \<and>
   leadDerivation hotAnalysis annTask leadStore
     = Inr (leadStore
         \<lparr> leads :=
             [calledLead\<lparr> l_score := 85,
                l_notes := Some (''called once'' @ [CHR 0x0A, CHR 0x0A] @ ''New analysis: buy'') \<rparr>],
           events := events leadStore @
             [LeadUpdate (calledLead\<lparr> l_score := 85,
                l_notes := Some (''called once'' @ [CHR 0x0A, CHR 0x0A] @ ''New analysis: buy'') \<rparr>)] \<rparr>)"
proof -
  have hyp: "70 \<le> ta_score hotAnalysis"
    "lead_findFirst (t_customerId annTask) leadStore = Some calledLead"
    "distinct (map l_id (leads leadStore))"
    by (simp_all add: continuation_eval leadStore_def calledLead_def)
  show ?thesis
    using existing_lead_score_never_decreases [OF hyp] hyp
    by (simp add: continuation_eval leadStore_def calledLead_def)
qed

section \<open>Sanitising the collaborator's response\<close>

subsection \<open>\<open>parseInt\<close> reads a printed integer back\<close>

lemma digit_cases: "d < 10 \<Longrightarrow> d \<in> {0, 1, 2, 3, 4, 5, 6, 7, 8, 9 :: nat}"
  by auto

lemma digitValue_digitChar: "d < 10 \<Longrightarrow> digitValue (digitChar d) = Some d"
  using digit_cases [of d] by (auto simp: digitValue_def digitChar_def)

lemma digitChar_plain:
  "d < 10 \<Longrightarrow> digitChar d \<noteq> CHR ''x'' \<and> digitChar d \<noteq> CHR ''X'' \<and> digitChar d \<noteq> CHR ''-''
     \<and> digitChar d \<noteq> CHR ''+'' \<and> \<not> isWhiteSpace (digitChar d)"
  using digit_cases [of d] by (auto simp: digitChar_def isWhiteSpace_def)

lemma showNat_small [simp]: "n < 10 \<Longrightarrow> showNat n = [digitChar n]"
  by (subst showNat.simps) simp

lemma showNat_large [simp]:
  "\<not> n < 10 \<Longrightarrow> showNat n = showNat (n div 10) @ [digitChar (n mod 10)]"
  by (subst showNat.simps) simp

lemma readDigits_showNat:
  "readDigits 10 acc (showNat n @ rest)
     = readDigits 10 (Some ((case acc of None \<Rightarrow> 0 | Some a \<Rightarrow> a) * 10 ^ length (showNat n) + n)) rest"
proof (induction n arbitrary: acc rest rule: showNat.induct)
  case (1 n)
  show ?case
  proof (cases "n < 10")
    case True
    then show ?thesis
      by (simp add: digitValue_digitChar)
  next
    case False
    then have d: "n mod 10 < 10" by simp
    have sh: "showNat n = showNat (n div 10) @ [digitChar (n mod 10)]"
      using False by simp
    have "readDigits 10 acc (showNat n @ rest)
        = readDigits 10 acc (showNat (n div 10) @ (digitChar (n mod 10) # rest))"
      by (simp add: sh)
    also have "\<dots> = readDigits 10 (Some ((case acc of None \<Rightarrow> 0 | Some a \<Rightarrow> a) * 10 ^ length (showNat (n div 10)) + n div 10))
          (digitChar (n mod 10) # rest)"
      using "1.IH" [OF False] by simp
    also have "\<dots> = readDigits 10 (Some ((case acc of None \<Rightarrow> 0 | Some a \<Rightarrow> a) * 10 ^ length (showNat n) + n)) rest"
      using d by (simp add: digitValue_digitChar sh algebra_simps)
    finally show ?thesis .
  qed
qed

lemma showNat_digits:
  "showNat n \<noteq> [] \<and> list_all (\<lambda>c. \<exists>d<10. c = digitChar d) (showNat n)"
proof (induction n rule: showNat.induct)
  case (1 n)
  show ?case
  proof (cases "n < 10")
    case True
    then show ?thesis by auto
  next
    case False
    moreover have "n mod 10 < 10" by simp
    ultimately show ?thesis using "1.IH" by (auto intro!: exI [of _ "n mod 10"])
  qed
qed

lemma readUnsigned_showNat: "readUnsigned (showNat n) = Some n"
proof -
  have plain: "x \<noteq> CHR ''x'' \<and> x \<noteq> CHR ''X''" if "x \<in> set (showNat n)" for x
  proof -
    from that obtain d where "d < 10" "x = digitChar d"
      using showNat_digits [of n] by (auto simp: list_all_iff)
    then show ?thesis using digitChar_plain [of d] by simp
  qed
  have "readUnsigned (showNat n) = readDigits 10 None (showNat n)"
    unfolding readUnsigned_def using plain by (auto split: list.splits)
  also have "\<dots> = Some n"
    using readDigits_showNat [of None n "[]"] by simp
  finally show ?thesis .
qed

lemma parseInt_JNum: "parseInt (JNum i) = Some i"
proof (cases "i < 0")
  case True
  then show ?thesis
    by (simp add: parseInt_def parseIntStr_def showInt_def isWhiteSpace_def readUnsigned_showNat)
next
  case False
  obtain c cs where sh: "showNat (nat i) = c # cs"
    using showNat_digits [of "nat i"] by (cases "showNat (nat i)") auto
  then have "\<exists>d<10. c = digitChar d"
    using showNat_digits [of "nat i"] by simp
  then have c: "c \<noteq> CHR ''-''" "c \<noteq> CHR ''+''" "\<not> isWhiteSpace c"
    using digitChar_plain by auto
  have "readUnsigned (c # cs) = Some (nat i)"
    using readUnsigned_showNat [of "nat i"] by (simp add: sh)
  then show ?thesis
    using False c by (simp add: parseInt_def parseIntStr_def showInt_def sh)
qed

subsection \<open>The sanitised result\<close>










section \<open>Ingestion: customer resolution and message recording\<close>



lemma toChannelUpper_recognised:
  "recognised platform \<Longrightarrow>
     parseCustomerSource (toChannelUpper (Some platform))
       = Some (if toLowerCase platform = ''whatsapp'' then SRC_WHATSAPP else SRC_INSTAGRAM) \<and>
     parseMessagePlatform (toChannelUpper (Some platform))
       = Some (if toLowerCase platform = ''whatsapp'' then PLAT_WHATSAPP else PLAT_INSTAGRAM) \<and>
     platform \<noteq> []"
  by (auto simp: recognised_def toChannelUpper_def parseCustomerSource_def parseMessagePlatform_def toLowerCase_def)

lemma toDirectionUpper_parsed:
  "parseMessageDirection (toDirectionUpper d)
     = Some (if toLowerCase (case d of None \<Rightarrow> [] | Some x \<Rightarrow> x) = ''outbound'' then OUTBOUND else INBOUND)"
  by (simp add: toDirectionUpper_def parseMessageDirection_def Let_def)

lemma resolveCustomer_found:
  "customer_findFirst rule (pc_phone pc) (pc_email pc) s = Some c \<Longrightarrow>
     resolveCustomer rule platform pc s = Inr (c, s) \<and> c \<in> set (customers s)"
proof -
  assume f: "customer_findFirst rule (pc_phone pc) (pc_email pc) s = Some c"
  then have "c \<in> set (customers s)"
    unfolding customer_findFirst_def find_Some_iff by auto
  with f show ?thesis by (simp add: resolveCustomer_def)
qed


lemma handled_after_resolution:
  assumes "webhookSecret req = envSecret"
    and "p_platform (body req) = Some platform" and "recognised platform"
    and "p_customer (body req) = Some pc"
    and "p_message (body req) = Some pm" and "pm_content pm \<noteq> None"
    and "resolveCustomer rule platform pc s = Inr (c, s1)"
    and "list_ex (\<lambda>x. c_id x = c_id c) (customers s1)"
  shows "handleWebhook rule envSecret req s
     = (processed (c_id c) (nextId s1),
        emit (MessageNew (recordedMessage (nextId s1) (c_id c) platform pm))
          (s1\<lparr> messages := messages s1 @ [recordedMessage (nextId s1) (c_id c) platform pm],
               nextId := nextId s1 + 1 \<rparr>),
        Some \<lparr> t_messageId = nextId s1, t_customerId = c_id c, t_platform = platform \<rparr>)"
  using assms toChannelUpper_recognised [of platform] toDirectionUpper_parsed [of "pm_direction pm"]
  by (auto simp: handleWebhook_def message_create_def recordedMessage_def Let_def)














section \<open>Further consequences of the schema and of the built-ins\<close>

text \<open>
  \<open>Sentiment\<close> has the labels POSITIVE, NEUTRAL and NEGATIVE only. When \<open>analyzeText\<close>
  returns VERY_POSITIVE or VERY_NEGATIVE the message update is rejected, the \<open>catch\<close> of
  the continuation logs it, and nothing is written: the message keeps its unset
  enrichment columns and no lead is derived, whatever the score.
\<close>

lemma unstorable_sentiment_stops_the_continuation:
  "ta_sentiment a = ''VERY_POSITIVE'' \<or> ta_sentiment a = ''VERY_NEGATIVE'' \<Longrightarrow>
     enrichment a t s = s"
  by (auto simp: enrichment_def message_update_def parseSentiment_def)

text \<open>The score 0 is falsy, so \<open>parseInt(0) || 50\<close> makes it 50.\<close>

lemma zero_score_becomes_default:
  "sanitize analysis = Inr r \<Longrightarrow> propOf analysis ''score'' = JNum 0 \<Longrightarrow> ta_score r = 50"
  by (auto simp: sanitize_def parseInt_JNum split: if_splits sum.splits)

text \<open>
  An email of \<open>null\<close> in the payload selects the customers without an email: when the
  first stored customer has none, the message is attached to that customer, whatever
  the phone of the payload and whatever the lookup does with missing fields.
\<close>

lemma null_email_selects_customers_without_email:
  assumes auth: "webhookSecret req = envSecret"
    and pl: "p_platform (body req) = Some platform" and rec: "recognised platform"
    and cu: "p_customer (body req) = Some pc" and nullmail: "pc_email pc = Null"
    and me: "p_message (body req) = Some pm" and co: "pm_content pm \<noteq> None"
    and first: "customers s = c0 # rest" and nomail: "c_email c0 = None"
  shows "responseOf (handleWebhook rule envSecret req s) = processed (c_id c0) (nextId s) \<and>
         customers (storeOf (handleWebhook rule envSecret req s)) = customers s \<and>
         messages (storeOf (handleWebhook rule envSecret req s))
           = messages s @ [recordedMessage (nextId s) (c_id c0) platform pm]"
proof -
  have f: "customer_findFirst rule (pc_phone pc) (pc_email pc) s = Some c0"
    by (simp add: customer_findFirst_def orBranch_def nullmail first nomail)
  from resolveCustomer_found [OF f, of platform]
  have r: "resolveCustomer rule platform pc s = Inr (c0, s)" by simp
  have fk: "list_ex (\<lambda>x. c_id x = c_id c0) (customers s)"
    by (simp add: first)
  from handled_after_resolution [OF auth pl rec cu me co r fk]
  show ?thesis by (simp add: emit_def)
qed

end
